theory Spec2Isabelle
  imports Main
begin

section \<open>Python values used by the chatbot pipeline\<close>

text \<open>
  The three functions of \<^verbatim>\<open>mikrotik_chatbot.py\<close> that make up the pipeline are
  \<^verbatim>\<open>get_ai_response\<close> (the Translator), \<^verbatim>\<open>execute_command\<close> (the Executor) and
  \<^verbatim>\<open>format_response\<close> (the Formatter). They exchange values decoded from JSON, Python
  dictionaries and strings.

  Strings are byte lists holding UTF-8; every character the code compares against is
  ASCII. A Python \<^verbatim>\<open>dict\<close> is an association list in insertion order (keys distinct
  when built by \<open>dict_set\<close>). A JSON float is kept as its lexeme: no claim computes with it.
\<close>

datatype json =
    JNull
  | JBool bool
  | JInt int
  | JFloat string
  | JStr string
  | JArr "json list"
  | JObj "(string \<times> json) list"

type_synonym py_dict = "(string \<times> json) list"

text \<open>One row of a router query result: field name to value, in the router's order.\<close>

type_synonym py_record = "(string \<times> string) list"

definition dict_get :: "(string \<times> 'v) list \<Rightarrow> string \<Rightarrow> 'v option" where
  "dict_get d k = map_of d k"

definition dict_contains :: "(string \<times> 'v) list \<Rightarrow> string \<Rightarrow> bool" where
  "dict_contains d k = (dict_get d k \<noteq> None)"

fun dict_set :: "(string \<times> 'v) list \<Rightarrow> string \<Rightarrow> 'v \<Rightarrow> (string \<times> 'v) list" where
  "dict_set [] k v = [(k, v)]"
| "dict_set ((k', v') # d) k v = (if k' = k then (k, v) # d else (k', v') # dict_set d k v)"

text \<open>
  Python truthiness of an optional dictionary (\<^verbatim>\<open>if not command_info\<close>): \<^verbatim>\<open>None\<close> and the
  empty dictionary are both false.
\<close>

fun truthy :: "py_dict option \<Rightarrow> bool" where
  "truthy None = False"
| "truthy (Some d) = (d \<noteq> [])"

text \<open>
  Exceptions are instances of subclasses of \<^verbatim>\<open>Exception\<close>, with the class the handlers
  look at and the text \<^verbatim>\<open>str(e)\<close> that the f-strings embed. \<open>JSONDecodeError\<close> stands
  for \<^verbatim>\<open>json.JSONDecodeError\<close> and its subclasses, \<open>OtherException\<close> for the classes
  of the collaborators' own errors.
\<close>

datatype exn_class =
    JSONDecodeError | KeyError | TypeError | AttributeError | UnboundLocalError | OtherException

datatype py_exn = PyExn (exn_class: exn_class) (exn_str: string)

fun py_type_name :: "json \<Rightarrow> string" where
  "py_type_name JNull = ''NoneType''"
| "py_type_name (JBool _) = ''bool''"
| "py_type_name (JInt _) = ''int''"
| "py_type_name (JFloat _) = ''float''"
| "py_type_name (JStr _) = ''str''"
| "py_type_name (JArr _) = ''list''"
| "py_type_name (JObj _) = ''dict''"

section \<open>The router collaborator\<close>

text \<open>
  \<^verbatim>\<open>api.get_resource(path)\<close> returns a resource object or raises; the resource's
  \<^verbatim>\<open>get(**kwargs)\<close> is the query: it returns the records or raises. \<open>get_funcstr\<close> is how
  the interpreter names that method in the \<^verbatim>\<open>TypeError\<close> of a \<^verbatim>\<open>**\<close> operand that is
  not a mapping.
\<close>

record resource =
  get_funcstr :: string
  resource_get :: "py_dict \<Rightarrow> py_exn + py_record list"

type_synonym router_api = "json \<Rightarrow> py_exn + resource"

text \<open>The calls \<^verbatim>\<open>execute_command\<close> makes on the collaborator, in order.\<close>

datatype api_call = GetResource json | Query json py_dict

fun is_query :: "api_call \<Rightarrow> bool" where
  "is_query (Query _ _) = True"
| "is_query (GetResource _) = False"

text \<open>What the Executor returns: a message, or the records of the query.\<close>

datatype response = RStr string | RRecords "py_record list"

section \<open>The Executor\<close>

definition no_command_message :: string where
  "no_command_message =
     ''The AI could not determine a valid command for your request. Please try rephrasing it.''"

definition reboot_path :: string where
  "reboot_path = ''/system/reboot''"

definition reboot_message :: string where
  "reboot_message = ''Reboot command received. Please use the '' @ [CHR 0x27] @ ''System Controls''
     @ [CHR 0x27] @ '' section in the sidebar to confirm the reboot.''"

definition execute_error :: "py_exn \<Rightarrow> string" where
  "execute_error e = ''An error occurred while executing the command: '' @ exn_str e"

definition kwargs_type_error :: "resource \<Rightarrow> json \<Rightarrow> py_exn" where
  "kwargs_type_error res v =
     PyExn TypeError (get_funcstr res @ '' argument after ** must be a mapping, not ''
       @ py_type_name v)"

text \<open>\<^verbatim>\<open>command_info.get('params', {})\<close>.\<close>

definition get_params :: "py_dict \<Rightarrow> json" where
  "get_params d = (case dict_get d ''params'' of None \<Rightarrow> JObj [] | Some p \<Rightarrow> p)"

text \<open>
  \<^verbatim>\<open>execute_command(api, command_info)\<close>. The result pairs the calls made on the router
  with the outcome: \<open>Inl\<close> is an exception that leaves the function, \<open>Inr\<close> its return
  value. The lookup \<^verbatim>\<open>command_info['cmd']\<close> stands before the \<^verbatim>\<open>try\<close>, so its
  \<^verbatim>\<open>KeyError\<close> is not caught; everything after it is inside the \<^verbatim>\<open>try\<close>.
\<close>

definition execute_command :: "router_api \<Rightarrow> py_dict option \<Rightarrow> api_call list \<times> (py_exn + response)" where
  "execute_command api command_info =
     (if \<not> truthy command_info then ([], Inr (RStr no_command_message))
      else case command_info of
        None \<Rightarrow> ([], Inr (RStr no_command_message))
      | Some d \<Rightarrow>
         (case dict_get d ''cmd'' of
            None \<Rightarrow> ([], Inl (PyExn KeyError ([CHR 0x27] @ ''cmd'' @ [CHR 0x27])))
          | Some cmd_path \<Rightarrow>
             (let params = get_params d in
              if cmd_path = JStr reboot_path then ([], Inr (RStr reboot_message))
              else
                (case api cmd_path of
                   Inl e \<Rightarrow> ([GetResource cmd_path], Inr (RStr (execute_error e)))
                 | Inr res \<Rightarrow>
                    (case params of
                       JObj kwargs \<Rightarrow>
                         (case resource_get res kwargs of
                            Inl e \<Rightarrow>
                              ([GetResource cmd_path, Query cmd_path kwargs],
                               Inr (RStr (execute_error e)))
                          | Inr result \<Rightarrow>
                              ([GetResource cmd_path, Query cmd_path kwargs],
                               Inr (RRecords result)))
                     | _ \<Rightarrow>
                         ([GetResource cmd_path],
                          Inr (RStr (execute_error (kwargs_type_error res params)))))))))"

section \<open>The Formatter\<close>

definition no_results_message :: string where
  "no_results_message = ''No results found or command executed successfully.''"

definition lease_path :: string where
  "lease_path = ''/ip/dhcp-server/lease''"

text \<open>\<^verbatim>\<open>str(n)\<close> for a count: decimal digits, most significant first.\<close>

definition digit_char :: "nat \<Rightarrow> char" where
  "digit_char d = char_of (48 + d)"

function str_nat :: "nat \<Rightarrow> string" where
  "str_nat n = (if n < 10 then [digit_char n] else str_nat (n div 10) @ [digit_char (n mod 10)])"
  by pat_completeness auto
termination
  by (relation "measure id") auto

declare str_nat.simps [simp del]

text \<open>\<^verbatim>\<open>sep.join(xs)\<close>.\<close>

fun py_join :: "string \<Rightarrow> string list \<Rightarrow> string" where
  "py_join sep [] = []"
| "py_join sep [x] = x"
| "py_join sep (x # y # ys) = x @ sep @ py_join sep (y # ys)"

text \<open>\<^verbatim>\<open>k.replace('-', ' ')\<close>: every hyphen becomes a space.\<close>

definition replace_hyphens :: "string \<Rightarrow> string" where
  "replace_hyphens k = map (\<lambda>c. if c = CHR ''-'' then CHR '' '' else c) k"

text \<open>
  \<^verbatim>\<open>str.title()\<close> on ASCII strings: a letter that follows a non-letter is upper-cased, a
  letter that follows a letter is lower-cased, everything else is kept and ends the word.
  The model is that of ASCII strings only: Python cases the letters beyond ASCII as well,
  which a byte-wise function cannot follow, so on a name holding a byte above \<open>0x7F\<close>
  \<open>py_title\<close> is not Python's result. The theorem on the labels therefore assumes
  ASCII field names, as those of RouterOS are.
\<close>

definition is_ascii_lower :: "char \<Rightarrow> bool" where
  "is_ascii_lower c = (97 \<le> (of_char c :: nat) \<and> (of_char c :: nat) \<le> 122)"

definition is_ascii_upper :: "char \<Rightarrow> bool" where
  "is_ascii_upper c = (65 \<le> (of_char c :: nat) \<and> (of_char c :: nat) \<le> 90)"


definition to_ascii_upper :: "char \<Rightarrow> char" where
  "to_ascii_upper c = (if is_ascii_lower c then char_of ((of_char c :: nat) - 32) else c)"

definition to_ascii_lower :: "char \<Rightarrow> char" where
  "to_ascii_lower c = (if is_ascii_upper c then char_of ((of_char c :: nat) + 32) else c)"

fun title_from :: "bool \<Rightarrow> string \<Rightarrow> string" where
  "title_from previous_is_cased [] = []"
| "title_from previous_is_cased (c # cs) =
     (if is_ascii_lower c then
        (if previous_is_cased then c else to_ascii_upper c) # title_from True cs
      else if is_ascii_upper c then
        (if previous_is_cased then to_ascii_lower c else c) # title_from True cs
      else c # title_from False cs)"

definition py_title :: "string \<Rightarrow> string" where
  "py_title s = title_from False s"

definition field_label :: "string \<Rightarrow> string" where
  "field_label k = py_title (replace_hyphens k)"

text \<open>One element of \<^verbatim>\<open>lines\<close>: the f-string \<^verbatim>\<open>- **{label}**: `{v}`\<close>.\<close>

definition field_line :: "string \<times> string \<Rightarrow> string" where
  "field_line kv = ''- **'' @ field_label (fst kv) @ ''**: `'' @ snd kv @ ''`''"

definition record_rule :: string where
  "record_rule = [CHR 10, CHR 10] @ ''---'' @ [CHR 10, CHR 10]"

definition format_item :: "py_record \<Rightarrow> string" where
  "format_item item = py_join [CHR 10] (map field_line item) @ record_rule"

text \<open>The \<^verbatim>\<open>for item in response\<close> loop, with \<^verbatim>\<open>formatted_string\<close> as accumulator.\<close>

fun format_loop :: "string \<Rightarrow> py_record list \<Rightarrow> string" where
  "format_loop formatted_string [] = formatted_string"
| "format_loop formatted_string (item # rest) =
     format_loop (formatted_string @ format_item item) rest"

definition is_bound :: "py_record \<Rightarrow> bool" where
  "is_bound lease = (dict_get lease ''status'' = Some ''bound'')"

text \<open>The header; the light-bulb sign is the four bytes of U+1F4A1 in UTF-8.\<close>

definition count_header :: "nat \<Rightarrow> string" where
  "count_header n = ''### '' @ [CHR 0xF0, CHR 0x9F, CHR 0x92, CHR 0xA1] @ '' Found '' @ str_nat n
     @ '' active client(s) online.'' @ record_rule"

definition format_response :: "response \<Rightarrow> py_dict option \<Rightarrow> string" where
  "format_response response command_info =
     (case response of
        RStr s \<Rightarrow> s
      | RRecords rs \<Rightarrow>
          if rs = [] then no_results_message
          else
            (let count_string =
               (if truthy command_info \<and>
                   (case command_info of None \<Rightarrow> False
                    | Some d \<Rightarrow> dict_get d ''cmd'' = Some (JStr lease_path))
                then count_header (length (filter is_bound rs))
                else [])
             in count_string @ format_loop [] rs))"

section \<open>Strings: prefix and substring tests\<close>

text \<open>\<^verbatim>\<open>s.startswith(p)\<close> and \<^verbatim>\<open>needle in haystack\<close> on strings.\<close>

fun starts_with :: "string \<Rightarrow> string \<Rightarrow> bool" where
  "starts_with s [] = True"
| "starts_with [] (p # ps) = False"
| "starts_with (c # cs) (p # ps) = (c = p \<and> starts_with cs ps)"

fun py_in :: "string \<Rightarrow> string \<Rightarrow> bool" where
  "py_in needle [] = (needle = [])"
| "py_in needle (c # cs) = (starts_with (c # cs) needle \<or> py_in needle cs)"

section \<open>json.loads\<close>

text \<open>
  \<^verbatim>\<open>json.loads\<close> belongs to the standard library, not to the repository. The Translator
  takes the decoder as a parameter (\<open>json_loads\<close> of its environment), so the general
  theorems hold for any decoder. \<open>py_json_loads\<close> below is a model of the library's
  default decoder, used to evaluate the Translator on concrete replies: the JSON grammar
  as the library reads it (whitespace, the literals with \<^verbatim>\<open>NaN\<close> and \<^verbatim>\<open>Infinity\<close>, numbers,
  strings with their escapes in strict mode, arrays, objects whose repeated keys keep the
  last value, nothing but whitespace after the value). \<open>None\<close> is a
  \<^verbatim>\<open>JSONDecodeError\<close>. An integer literal becomes \<open>JInt\<close>, any other number a \<open>JFloat\<close>
  holding its lexeme; an escape \<^verbatim>\<open>\uXXXX\<close> becomes the UTF-8 bytes of its code point. The
  interpreter's recursion limit and its limit on the digits of an integer are not modelled.

  The text is first cut into tokens, then the tokens are read by a pushdown automaton;
  whitespace is allowed exactly between tokens, as in the library.
\<close>

datatype token = TLBrace | TRBrace | TLBracket | TRBracket | TColon | TComma | TValue json

definition is_ws :: "char \<Rightarrow> bool" where
  "is_ws c = (c = CHR '' '' \<or> c = CHR 0x09 \<or> c = CHR 0x0A \<or> c = CHR 0x0D)"

definition is_digit :: "char \<Rightarrow> bool" where
  "is_digit c = (48 \<le> (of_char c :: nat) \<and> (of_char c :: nat) \<le> 57)"

definition nat_of_digits :: "string \<Rightarrow> nat" where
  "nat_of_digits ds = foldl (\<lambda>a c. 10 * a + ((of_char c :: nat) - 48)) 0 ds"

definition hex_val :: "char \<Rightarrow> nat option" where
  "hex_val c =
     (let n = (of_char c :: nat) in
      if 48 \<le> n \<and> n \<le> 57 then Some (n - 48)
      else if 97 \<le> n \<and> n \<le> 102 then Some (n - 87)
      else if 65 \<le> n \<and> n \<le> 70 then Some (n - 55)
      else None)"

fun hex4 :: "string \<Rightarrow> nat option" where
  "hex4 (a # b # c # d # rest) =
     (case (hex_val a, hex_val b, hex_val c, hex_val d) of
        (Some w, Some x, Some y, Some z) \<Rightarrow> Some (((w * 16 + x) * 16 + y) * 16 + z)
      | _ \<Rightarrow> None)"
| "hex4 _ = None"

definition utf8_encode :: "nat \<Rightarrow> string" where
  "utf8_encode cp =
     (if cp < 0x80 then [char_of cp]
      else if cp < 0x800 then [char_of (0xC0 + cp div 64), char_of (0x80 + cp mod 64)]
      else if cp < 0x10000 then
        [char_of (0xE0 + cp div 4096), char_of (0x80 + (cp div 64) mod 64), char_of (0x80 + cp mod 64)]
      else
        [char_of (0xF0 + cp div 262144), char_of (0x80 + (cp div 4096) mod 64),
         char_of (0x80 + (cp div 64) mod 64), char_of (0x80 + cp mod 64)])"

definition simple_escape :: "char \<Rightarrow> char option" where
  "simple_escape e =
     (if e = CHR 0x22 then Some (CHR 0x22)
      else if e = CHR 0x5C then Some (CHR 0x5C)
      else if e = CHR ''/'' then Some (CHR ''/'')
      else if e = CHR ''b'' then Some (CHR 0x08)
      else if e = CHR ''f'' then Some (CHR 0x0C)
      else if e = CHR ''n'' then Some (CHR 0x0A)
      else if e = CHR ''r'' then Some (CHR 0x0D)
      else if e = CHR ''t'' then Some (CHR 0x09)
      else None)"

text \<open>
  The escape after a backslash: the decoded bytes and the number of characters consumed.
  A high surrogate directly followed by an escaped low surrogate gives one code point.
\<close>

definition scan_escape :: "string \<Rightarrow> (string \<times> nat) option" where
  "scan_escape s =
     (case s of
        [] \<Rightarrow> None
      | e # cs \<Rightarrow>
          if e = CHR ''u'' then
            (case hex4 cs of
               None \<Rightarrow> None
             | Some c1 \<Rightarrow>
                 if 0xD800 \<le> c1 \<and> c1 \<le> 0xDBFF \<and> starts_with (drop 4 cs) [CHR 0x5C, CHR ''u''] then
                   (case hex4 (drop 6 cs) of
                      None \<Rightarrow> None
                    | Some c2 \<Rightarrow>
                        if 0xDC00 \<le> c2 \<and> c2 \<le> 0xDFFF
                        then Some (utf8_encode (0x10000 + (c1 - 0xD800) * 1024 + (c2 - 0xDC00)), 11)
                        else Some (utf8_encode c1, 5))
                 else Some (utf8_encode c1, 5))
          else
            (case simple_escape e of None \<Rightarrow> None | Some ch \<Rightarrow> Some ([ch], 1)))"

text \<open>
  The rest of a string literal after its opening quote: the decoded content and the
  number of characters consumed, closing quote included. Control characters are refused.
\<close>

fun scan_string :: "string \<Rightarrow> (string \<times> nat) option" where
  "scan_string [] = None"
| "scan_string (c # cs) =
     (if c = CHR 0x22 then Some ([], 1)
      else if c = CHR 0x5C then
        (case scan_escape cs of
           None \<Rightarrow> None
         | Some (bytes, k) \<Rightarrow>
             (case scan_string (drop k cs) of
                None \<Rightarrow> None
              | Some (s, n) \<Rightarrow> Some (bytes @ s, 1 + k + n)))
      else if (of_char c :: nat) < 0x20 then None
      else
        (case scan_string cs of
           None \<Rightarrow> None
         | Some (s, n) \<Rightarrow> Some (c # s, 1 + n)))"

text \<open>
  A number is matched as the library's regular expression does: an optional minus, an
  integer part without leading zeros, then a fraction and an exponent, each taken only
  when complete.
\<close>

definition scan_exponent :: "string \<Rightarrow> string" where
  "scan_exponent s =
     (case s of
        [] \<Rightarrow> []
      | e # t \<Rightarrow>
          if e = CHR ''e'' \<or> e = CHR ''E'' then
            (let sign = (if starts_with t ''+'' \<or> starts_with t ''-'' then take 1 t else []);
                 digits = takeWhile is_digit (drop (length sign) t)
             in if digits = [] then [] else e # sign @ digits)
          else [])"

definition scan_fraction :: "string \<Rightarrow> string" where
  "scan_fraction s =
     (case s of
        [] \<Rightarrow> []
      | dot # t \<Rightarrow>
          if dot = CHR ''.'' \<and> takeWhile is_digit t \<noteq> [] then dot # takeWhile is_digit t else [])"

definition scan_number :: "string \<Rightarrow> (json \<times> nat) option" where
  "scan_number s =
     (let sign = (if starts_with s ''-'' then ''-'' else []);
          s1 = drop (length sign) s;
          integer = (if starts_with s1 ''0'' then ''0'' else takeWhile is_digit s1);
          frac = scan_fraction (drop (length integer) s1);
          exp = scan_exponent (drop (length integer + length frac) s1)
      in if integer = [] then None
         else if frac = [] \<and> exp = [] then
           Some (JInt (if sign = [] then int (nat_of_digits integer) else - int (nat_of_digits integer)),
                 length sign + length integer)
         else
           Some (JFloat (sign @ integer @ frac @ exp),
                 length sign + length integer + length frac + length exp))"

text \<open>The scalars other than strings, tried in the library's order.\<close>

definition scan_scalar :: "string \<Rightarrow> (json \<times> nat) option" where
  "scan_scalar s =
     (if starts_with s ''null'' then Some (JNull, 4)
      else if starts_with s ''true'' then Some (JBool True, 4)
      else if starts_with s ''false'' then Some (JBool False, 5)
      else
        (case scan_number s of
           Some r \<Rightarrow> Some r
         | None \<Rightarrow>
             if starts_with s ''NaN'' then Some (JFloat ''NaN'', 3)
             else if starts_with s ''Infinity'' then Some (JFloat ''Infinity'', 8)
             else if starts_with s ''-Infinity'' then Some (JFloat ''-Infinity'', 9)
             else None))"

definition cons_token :: "token \<Rightarrow> token list option \<Rightarrow> token list option" where
  "cons_token t r = map_option ((#) t) r"

fun lex :: "string \<Rightarrow> token list option" where
  "lex [] = Some []"
| "lex (c # cs) =
     (if is_ws c then lex cs
      else if c = CHR ''{'' then cons_token TLBrace (lex cs)
      else if c = CHR ''}'' then cons_token TRBrace (lex cs)
      else if c = CHR ''['' then cons_token TLBracket (lex cs)
      else if c = CHR '']'' then cons_token TRBracket (lex cs)
      else if c = CHR '':'' then cons_token TColon (lex cs)
      else if c = CHR '','' then cons_token TComma (lex cs)
      else if c = CHR 0x22 then
        (case scan_string cs of
           None \<Rightarrow> None
         | Some (s, n) \<Rightarrow> cons_token (TValue (JStr s)) (lex (drop n cs)))
      else
        (case scan_scalar (c # cs) of
           None \<Rightarrow> None
         | Some (v, n) \<Rightarrow> cons_token (TValue v) (lex (drop (n - 1) cs))))"

text \<open>
  The automaton: the stack holds the containers that are open (an array with its elements
  so far, an object with its pairs so far, an object waiting for the value of a key), the
  mode says what may come next.
\<close>

datatype frame = FArr "json list" | FObj py_dict | FObjValue py_dict string

datatype mode = MValue | MArrStart | MObjStart | MKey | MColon string | MAfter | MDone json

fun complete :: "json \<Rightarrow> frame list \<Rightarrow> (mode \<times> frame list) option" where
  "complete v [] = Some (MDone v, [])"
| "complete v (FArr xs # st) = Some (MAfter, FArr (xs @ [v]) # st)"
| "complete v (FObjValue d k # st) = Some (MAfter, FObj (dict_set d k v) # st)"
| "complete v (FObj d # st) = None"

definition parse_value_token :: "frame list \<Rightarrow> token \<Rightarrow> (mode \<times> frame list) option" where
  "parse_value_token st t =
     (case t of
        TValue v \<Rightarrow> complete v st
      | TLBrace \<Rightarrow> Some (MObjStart, FObj [] # st)
      | TLBracket \<Rightarrow> Some (MArrStart, FArr [] # st)
      | _ \<Rightarrow> None)"

definition parse_key_token :: "frame list \<Rightarrow> token \<Rightarrow> (mode \<times> frame list) option" where
  "parse_key_token st t = (case t of TValue (JStr k) \<Rightarrow> Some (MColon k, st) | _ \<Rightarrow> None)"

definition close_array :: "frame list \<Rightarrow> (mode \<times> frame list) option" where
  "close_array st = (case st of FArr xs # st' \<Rightarrow> complete (JArr xs) st' | _ \<Rightarrow> None)"

definition close_object :: "frame list \<Rightarrow> (mode \<times> frame list) option" where
  "close_object st = (case st of FObj d # st' \<Rightarrow> complete (JObj d) st' | _ \<Rightarrow> None)"

definition parse_step :: "mode \<Rightarrow> frame list \<Rightarrow> token \<Rightarrow> (mode \<times> frame list) option" where
  "parse_step m st t =
     (case m of
        MValue \<Rightarrow> parse_value_token st t
      | MArrStart \<Rightarrow> (if t = TRBracket then close_array st else parse_value_token st t)
      | MObjStart \<Rightarrow> (if t = TRBrace then close_object st else parse_key_token st t)
      | MKey \<Rightarrow> parse_key_token st t
      | MColon k \<Rightarrow>
          (case st of
             FObj d # st' \<Rightarrow> if t = TColon then Some (MValue, FObjValue d k # st') else None
           | _ \<Rightarrow> None)
      | MAfter \<Rightarrow>
          (case t of
             TComma \<Rightarrow>
               (case st of
                  FArr xs # st' \<Rightarrow> Some (MValue, st)
                | FObj d # st' \<Rightarrow> Some (MKey, st)
                | _ \<Rightarrow> None)
           | TRBracket \<Rightarrow> close_array st
           | TRBrace \<Rightarrow> close_object st
           | _ \<Rightarrow> None)
      | MDone v \<Rightarrow> None)"

fun parse_tokens :: "mode \<Rightarrow> frame list \<Rightarrow> token list \<Rightarrow> json option" where
  "parse_tokens (MDone v) st [] = Some v"
| "parse_tokens m st [] = None"
| "parse_tokens m st (t # ts) =
     (case parse_step m st t of None \<Rightarrow> None | Some (m', st') \<Rightarrow> parse_tokens m' st' ts)"

definition py_json_loads :: "string \<Rightarrow> json option" where
  "py_json_loads s = (case lex s of None \<Rightarrow> None | Some ts \<Rightarrow> parse_tokens MValue [] ts)"

section \<open>The Translator\<close>

text \<open>
  \<^verbatim>\<open>re.search(r'\{.*\}', text, re.DOTALL)\<close>: the leftmost match of an opening brace, any
  characters (newlines included, the star being greedy) and a closing brace. The match
  starts at the first opening brace that some closing brace follows, which is the first
  opening brace of the text, and ends at the last closing brace; \<open>None\<close> when there is no
  match. The lemmas \<open>re_search_json_block_span\<close> and \<open>re_search_json_block_None\<close> state
  this about the definition.
\<close>

definition re_search_json_block :: "string \<Rightarrow> string option" where
  "re_search_json_block text =
     (case dropWhile (\<lambda>c. c \<noteq> CHR ''{'') text of
        [] \<Rightarrow> None
      | brace # rest \<Rightarrow>
          if CHR ''}'' \<in> set rest
          then Some (brace # rev (dropWhile (\<lambda>c. c \<noteq> CHR ''}'') (rev rest)))
          else None)"

text \<open>
  The language-model service and the JSON decoder are collaborators. \<^verbatim>\<open>genai.configure\<close>
  followed by \<^verbatim>\<open>genai.GenerativeModel(...)\<close> raises or gives a model; the model's
  \<^verbatim>\<open>generate_content(prompt)\<close> raises or gives a response object; reading the response's
  \<^verbatim>\<open>text\<close> raises or gives the reply text. \<^verbatim>\<open>json.loads\<close> raises or gives a value.
\<close>

type_synonym genai_response = "py_exn + string"

type_synonym generative_model = "string \<Rightarrow> py_exn + genai_response"

record translator_env =
  genai_configure :: "string \<Rightarrow> py_exn + generative_model"
  json_loads :: "string \<Rightarrow> py_exn + json"

text \<open>The instruction template, line by line as in the source.\<close>

definition system_prompt :: string where
  \<open>system_prompt = py_join [CHR 10]
     [
      '''',
      ''    You are a highly intelligent assistant for MikroTik RouterOS. Your only task is to translate a user's plain English request into a single, valid JSON object representing the corresponding RouterOS API resource path.'',
      '''',
      ''    The JSON object MUST contain two keys:'',
      ''    1. "cmd": The API resource path as a string (e.g., "/system/resource"). DO NOT include "/print".'',
      ''    2. "params": A dictionary of parameters. This can be an empty dictionary {} if no parameters are needed.'',
      '''',
      ''    YOU MUST ONLY OUTPUT THE RAW JSON OBJECT AND NOTHING ELSE. Do not include explanations, apologies, or any markdown formatting like ```json.'',
      '''',
      ''    Here are some examples of API resource paths for your reference:'',
      ''    - /system/resource'',
      ''    - /log'',
      ''    - /interface'',
      ''    - /ip/address'',
      ''    - /ip/firewall/filter'',
      ''    - /interface/wireless/registration-table'',
      ''    - /ip/dhcp-server/lease'',
      ''    - /system/reboot'',
      '''',
      ''    Example 1:'',
      ''    User request: "what is the router uptime?"'',
      ''    Your response:'',
      ''    {"cmd": "/system/resource", "params": {}}'',
      '''',
      ''    Example 2:'',
      ''    User request: "show connected wifi devices"'',
      ''    Your response:'',
      ''    {"cmd": "/interface/wireless/registration-table", "params": {}}'',
      ''    '',
      ''    Example 3:'',
      ''    User request: "how many clients are online?"'',
      ''    Your response:'',
      ''    {"cmd": "/ip/dhcp-server/lease", "params": {}}'',
      '''',
      ''    Now, process the following user request.'',
      ''    ''
     ]\<close>

definition full_prompt :: "string \<Rightarrow> string" where
  \<open>full_prompt user_input = system_prompt @ [CHR 10] @ ''User request: "'' @ user_input @ ''"''\<close>

text \<open>The messages shown to the user with \<^verbatim>\<open>st.error\<close>.\<close>

definition msg_no_api_key :: string where
  "msg_no_api_key = ''Google AI API Key is not set. Please add it in the sidebar.''"

definition msg_configure_failed :: "py_exn \<Rightarrow> string" where
  "msg_configure_failed e =
     ''Failed to configure AI model. Is your API key correct? Error: '' @ exn_str e"

definition msg_no_command_object :: string where
  "msg_no_command_object = ''AI Response Error: The model did not return a valid command object.''"

definition msg_missing_keys :: string where
  "msg_missing_keys = ''AI Response Error: The returned command is missing required keys.''"

definition msg_parse_failed :: string where
  "msg_parse_failed = ''AI Response Error: Failed to parse the command from the model'' @ [CHR 0x27]
     @ ''s response.''"

definition msg_api_key_invalid :: string where
  "msg_api_key_invalid =
     ''Authentication Error: Your Google AI API Key is invalid. Please check it in the sidebar.''"

definition msg_unexpected :: string where
  "msg_unexpected = ''An unexpected AI error occurred. Please check the console for details.''"

text \<open>
  Reading the local variable \<^verbatim>\<open>response\<close> before \<^verbatim>\<open>generate_content\<close> has returned
  (message of Python 3.11 and later).
\<close>

definition unbound_response :: py_exn where
  "unbound_response =
     PyExn UnboundLocalError (''cannot access local variable '' @ [CHR 0x27] @ ''response''
       @ [CHR 0x27] @ '' where it is not associated with a value'')"

text \<open>
  The two handlers of the second \<^verbatim>\<open>try\<close>, for an exception \<open>e\<close> raised in its body.
  \<open>response\<close> is the binding of the local variable at that moment: \<open>None\<close> while
  \<^verbatim>\<open>generate_content\<close> has not returned, else the response object.

  \<^verbatim>\<open>except json.JSONDecodeError\<close> comes first: it shows the parse message, then prints
  \<^verbatim>\<open>response.text\<close> and returns \<^verbatim>\<open>None\<close>. Evaluating \<^verbatim>\<open>response.text\<close> there raises when
  \<^verbatim>\<open>response\<close> is unbound or when its \<^verbatim>\<open>text\<close> raises, and an exception raised inside a
  handler leaves the function. \<^verbatim>\<open>except Exception\<close> shows one of two messages and returns
  \<^verbatim>\<open>None\<close>. What \<^verbatim>\<open>print\<close> writes to the console is not part of the result.
\<close>

definition on_exception :: "genai_response option \<Rightarrow> py_exn \<Rightarrow> string list \<times> (py_exn + py_dict option)" where
  "on_exception response e =
     (if exn_class e = JSONDecodeError then
        (case response of
           None \<Rightarrow> ([msg_parse_failed], Inl unbound_response)
         | Some (Inl text_error) \<Rightarrow> ([msg_parse_failed], Inl text_error)
         | Some (Inr response_text) \<Rightarrow> ([msg_parse_failed], Inr None))
      else if py_in ''API_KEY_INVALID'' (exn_str e) then ([msg_api_key_invalid], Inr None)
      else ([msg_unexpected], Inr None))"

text \<open>\<^verbatim>\<open>isinstance(x, dict)\<close> for the result of \<^verbatim>\<open>command_info.get("params")\<close>.\<close>

fun is_dict :: "json option \<Rightarrow> bool" where
  "is_dict (Some (JObj _)) = True"
| "is_dict _ = False"

definition not_iterable :: "json \<Rightarrow> py_exn" where
  "not_iterable v =
     PyExn TypeError (''argument of type '' @ [CHR 0x27] @ py_type_name v @ [CHR 0x27]
       @ '' is not iterable'')"

definition no_attribute_get :: "json \<Rightarrow> py_exn" where
  "no_attribute_get v =
     PyExn AttributeError ([CHR 0x27] @ py_type_name v @ [CHR 0x27]
       @ '' object has no attribute '' @ [CHR 0x27] @ ''get'' @ [CHR 0x27])"

text \<open>
  The test \<^verbatim>\<open>"cmd" in command_info and isinstance(command_info.get("params"), dict)\<close> on
  whatever the decoder returned: \<open>Inr (Some d)\<close> when it holds of the dictionary \<open>d\<close>,
  \<open>Inr None\<close> when it is false, \<open>Inl\<close> when evaluating it raises (\<^verbatim>\<open>in\<close> on a value that
  is no container, \<^verbatim>\<open>.get\<close> on a list or a string).
\<close>

fun check_command :: "json \<Rightarrow> py_exn + py_dict option" where
  "check_command (JObj d) =
     Inr (if dict_contains d ''cmd'' \<and> is_dict (dict_get d ''params'') then Some d else None)"
| "check_command (JArr xs) =
     (if JStr ''cmd'' \<in> set xs then Inl (no_attribute_get (JArr xs)) else Inr None)"
| "check_command (JStr s) =
     (if py_in ''cmd'' s then Inl (no_attribute_get (JStr s)) else Inr None)"
| "check_command v = Inl (not_iterable v)"

text \<open>
  \<^verbatim>\<open>get_ai_response(user_input, api_key)\<close>. The result pairs the messages shown with
  \<^verbatim>\<open>st.error\<close> with the outcome: \<open>Inr None\<close> is the return value \<^verbatim>\<open>None\<close>, \<open>Inr (Some d)\<close>
  the returned dictionary, \<open>Inl\<close> an exception that leaves the function.
\<close>

definition get_ai_response :: "translator_env \<Rightarrow> string \<Rightarrow> string \<Rightarrow> string list \<times> (py_exn + py_dict option)" where
  "get_ai_response env user_input api_key =
     (if api_key = [] then ([msg_no_api_key], Inr None)
      else
        (case genai_configure env api_key of
           Inl e \<Rightarrow> ([msg_configure_failed e], Inr None)
         | Inr model \<Rightarrow>
            (case model (full_prompt user_input) of
               Inl e \<Rightarrow> on_exception None e
             | Inr response \<Rightarrow>
                (case response of
                   Inl e \<Rightarrow> on_exception (Some response) e
                 | Inr response_text \<Rightarrow>
                    (case re_search_json_block response_text of
                       None \<Rightarrow> ([msg_no_command_object], Inr None)
                     | Some command_str \<Rightarrow>
                        (case json_loads env command_str of
                           Inl e \<Rightarrow> on_exception (Some response) e
                         | Inr command_info \<Rightarrow>
                            (case check_command command_info of
                               Inl e \<Rightarrow> on_exception (Some response) e
                             | Inr None \<Rightarrow> ([msg_missing_keys], Inr None)
                             | Inr (Some d) \<Rightarrow> ([], Inr (Some d)))))))))"

section \<open>Concrete collaborators and inputs\<close>

text \<open>A router whose every resource answers any query with one interface record.\<close>

definition example_resource :: resource where
  "example_resource =
     \<lparr>get_funcstr = ''RouterOsResource.get()'',
      resource_get = (\<lambda>kwargs. Inr [[(''name'', ''ether1''), (''type'', ''ether'')]])\<rparr>"

definition example_api :: router_api where
  "example_api path = Inr example_resource"

text \<open>A router whose every query raises.\<close>

definition timeout_error :: py_exn where
  "timeout_error = PyExn OtherException ''timed out''"

definition failing_resource :: resource where
  "failing_resource =
     \<lparr>get_funcstr = ''RouterOsResource.get()'', resource_get = (\<lambda>kwargs. Inl timeout_error)\<rparr>"

definition failing_api :: router_api where
  "failing_api path = Inr failing_resource"

text \<open>A router whose resource lookup raises.\<close>

definition no_such_command :: py_exn where
  "no_such_command = PyExn OtherException ''no such command prefix''"

definition refusing_api :: router_api where
  "refusing_api path = Inl no_such_command"

definition reboot_descriptor :: py_dict where
  "reboot_descriptor = [(''cmd'', JStr ''/system/reboot''), (''params'', JObj [(''delay'', JStr ''5'')])]"

definition interface_descriptor :: py_dict where
  "interface_descriptor = [(''cmd'', JStr ''/interface''), (''params'', JObj [(''type'', JStr ''ether'')])]"



definition lease_descriptor :: py_dict where
  "lease_descriptor = [(''cmd'', JStr ''/ip/dhcp-server/lease''), (''params'', JObj [])]"




text \<open>
  The decoder of the concrete services: the model \<open>py_json_loads\<close> of \<^verbatim>\<open>json.loads\<close>, a
  failure being a \<^verbatim>\<open>JSONDecodeError\<close> (its message is not modelled: no handler reads it).
\<close>

definition decoder :: "string \<Rightarrow> py_exn + json" where
  "decoder s = (case py_json_loads s of None \<Rightarrow> Inl (PyExn JSONDecodeError []) | Some v \<Rightarrow> Inr v)"

text \<open>A service that accepts every key and answers every prompt with the given reply.\<close>

definition service_replying :: "string \<Rightarrow> translator_env" where
  "service_replying reply =
     \<lparr>genai_configure = (\<lambda>key. Inr (\<lambda>prompt. Inr (Inr reply))), json_loads = decoder\<rparr>"

text \<open>A service that rejects the configuration, and two whose call raises.\<close>

definition rejecting_service :: translator_env where
  "rejecting_service =
     \<lparr>genai_configure = (\<lambda>key. Inl (PyExn OtherException ''invalid credentials'')),
      json_loads = decoder\<rparr>"

definition unavailable_service :: translator_env where
  "unavailable_service =
     \<lparr>genai_configure =
        (\<lambda>key. Inr (\<lambda>prompt. Inl (PyExn OtherException ''503 service unavailable''))),
      json_loads = decoder\<rparr>"

definition garbled_service :: translator_env where
  "garbled_service =
     \<lparr>genai_configure =
        (\<lambda>key. Inr (\<lambda>prompt. Inl (PyExn JSONDecodeError ''Expecting value: line 1 column 1 (char 0)''))),
      json_loads = decoder\<rparr>"

definition helpful_reply :: string where
  \<open>helpful_reply = ''Sure! {"cmd": "/system/resource", "params": {}} Hope that helps!''\<close>

definition two_object_reply :: string where
  \<open>two_object_reply = ''{"cmd": "/interface", "params": {}} or {"cmd": "/log", "params": {}}''\<close>

definition empty_cmd_reply :: string where
  \<open>empty_cmd_reply = ''{"cmd": "", "params": {}}''\<close>

definition prose_reply :: string where
  "prose_reply = ''I cannot help with that.''"

definition malformed_reply :: string where
  "malformed_reply = ''{not json}''"

definition missing_params_reply :: string where
  \<open>missing_params_reply = ''{"cmd": "/log"}''\<close>

definition list_params_reply :: string where
  \<open>list_params_reply = ''{"cmd": "/log", "params": []}''\<close>

section \<open>Properties of the Executor\<close>

lemma dict_get_nonempty: "dict_get d k = Some v \<Longrightarrow> d \<noteq> []"
  by (auto simp: dict_get_def)

lemma execute_command_with_cmd:
  assumes "dict_get d ''cmd'' = Some cmd_path"
  shows "execute_command api (Some d) =
     (if cmd_path = JStr reboot_path then ([], Inr (RStr reboot_message))
      else
        (case api cmd_path of
           Inl e \<Rightarrow> ([GetResource cmd_path], Inr (RStr (execute_error e)))
         | Inr res \<Rightarrow>
            (case get_params d of
               JObj kwargs \<Rightarrow>
                 (case resource_get res kwargs of
                    Inl e \<Rightarrow>
                      ([GetResource cmd_path, Query cmd_path kwargs], Inr (RStr (execute_error e)))
                  | Inr result \<Rightarrow>
                      ([GetResource cmd_path, Query cmd_path kwargs], Inr (RRecords result)))
             | _ \<Rightarrow>
                 ([GetResource cmd_path],
                  Inr (RStr (execute_error (kwargs_type_error res (get_params d))))))))"
  using assms dict_get_nonempty[OF assms] by (simp add: execute_command_def Let_def)

text \<open>
  Claim C1. A descriptor whose \<^verbatim>\<open>cmd\<close> is the reboot path \<^verbatim>\<open>/system/reboot\<close> makes no
  call on the router at all (no resource lookup, no query) and returns the fixed advisory
  string \<^verbatim>\<open>Reboot command received. Please use the 'System Controls' section in the sidebar
  to confirm the reboot.\<close>, whatever its \<^verbatim>\<open>params\<close> are and whatever the router would answer.
\<close>

theorem execute_command_reboot:
  assumes "dict_get d ''cmd'' = Some (JStr ''/system/reboot'')"
  shows "execute_command api (Some d) =
     ([], Inr (RStr (''Reboot command received. Please use the '' @ [CHR 0x27]
        @ ''System Controls'' @ [CHR 0x27] @ '' section in the sidebar to confirm the reboot.'')))"
  using execute_command_with_cmd[OF assms] by (simp add: reboot_path_def reboot_message_def)

theorem execute_command_reboot_witness:
  "dict_get reboot_descriptor ''cmd'' = Some (JStr ''/system/reboot'') \<and>
   dict_get reboot_descriptor ''params'' = Some (JObj [(''delay'', JStr ''5'')]) \<and>
   execute_command example_api (Some reboot_descriptor) =
     ([], Inr (RStr (''Reboot command received. Please use the '' @ [CHR 0x27]
        @ ''System Controls'' @ [CHR 0x27] @ '' section in the sidebar to confirm the reboot.''))) \<and>
   execute_command failing_api (Some reboot_descriptor) =
     ([], Inr (RStr (''Reboot command received. Please use the '' @ [CHR 0x27]
        @ ''System Controls'' @ [CHR 0x27] @ '' section in the sidebar to confirm the reboot.'')))"
proof -
  have h: "dict_get reboot_descriptor ''cmd'' = Some (JStr ''/system/reboot'')"
    and p: "dict_get reboot_descriptor ''params'' = Some (JObj [(''delay'', JStr ''5'')])"
    by (simp_all add: reboot_descriptor_def dict_get_def)
  from execute_command_reboot[OF h, of example_api] execute_command_reboot[OF h, of failing_api] h p
  show ?thesis by simp
qed

text \<open>
  Claim C3, as stated, promises one query for every valid descriptor with non-empty
  \<^verbatim>\<open>params\<close>. The reboot descriptor with the non-empty params \<^verbatim>\<open>{"delay": "5"}\<close> is such a
  descriptor, and the Executor issues no query for it.
\<close>

theorem execute_command_reboot_makes_no_query:
  "dict_get reboot_descriptor ''cmd'' = Some (JStr ''/system/reboot'') \<and>
   dict_get reboot_descriptor ''params'' = Some (JObj [(''delay'', JStr ''5'')]) \<and>
   filter is_query (fst (execute_command example_api (Some reboot_descriptor))) = []"
proof -
  have h: "dict_get reboot_descriptor ''cmd'' = Some (JStr reboot_path)"
    by (simp add: reboot_descriptor_def dict_get_def reboot_path_def)
  have p: "dict_get reboot_descriptor ''params'' = Some (JObj [(''delay'', JStr ''5'')])"
    by (simp add: reboot_descriptor_def dict_get_def)
  from h p show ?thesis by (simp add: execute_command_with_cmd[OF h] reboot_path_def)
qed

text \<open>
  Claim C3, amended. For a descriptor whose \<^verbatim>\<open>cmd\<close> is a string other than the reboot path
  and whose \<^verbatim>\<open>params\<close> is a mapping (empty or not), the Executor looks the resource up once
  with the path unmodified and, when the lookup returns a resource, issues exactly one
  query with the params unmodified; when the query returns records, they are returned
  unchanged.
\<close>

theorem execute_command_query:
  assumes "dict_get d ''cmd'' = Some (JStr path)" and "path \<noteq> reboot_path"
    and "dict_get d ''params'' = Some (JObj kwargs)"
  shows "fst (execute_command api (Some d)) =
           (case api (JStr path) of
              Inl e \<Rightarrow> [GetResource (JStr path)]
            | Inr res \<Rightarrow> [GetResource (JStr path), Query (JStr path) kwargs]) \<and>
         (\<forall>res result. api (JStr path) = Inr res \<and> resource_get res kwargs = Inr result \<longrightarrow>
            snd (execute_command api (Some d)) = Inr (RRecords result))"
  using assms by (auto simp: execute_command_with_cmd[OF assms(1)] get_params_def split: sum.splits)

theorem execute_command_query_witness:
  "fst (execute_command example_api (Some interface_descriptor)) =
     [GetResource (JStr ''/interface''), Query (JStr ''/interface'') [(''type'', JStr ''ether'')]] \<and>
   snd (execute_command example_api (Some interface_descriptor)) =
     Inr (RRecords [[(''name'', ''ether1''), (''type'', ''ether'')]])"
proof -
  have c: "dict_get interface_descriptor ''cmd'' = Some (JStr ''/interface'')"
    and p: "dict_get interface_descriptor ''params'' = Some (JObj [(''type'', JStr ''ether'')])"
    and n: "''/interface'' \<noteq> reboot_path"
    by (simp_all add: interface_descriptor_def dict_get_def reboot_path_def)
  have a: "example_api (JStr ''/interface'') = Inr example_resource"
    by (simp add: example_api_def)
  have r: "resource_get example_resource [(''type'', JStr ''ether'')] =
      Inr [[(''name'', ''ether1''), (''type'', ''ether'')]]"
    by (simp add: example_resource_def)
  from execute_command_query[OF c n p, of example_api] a r show ?thesis by simp
qed

text \<open>
  Claim C6. For a descriptor with a path other than the reboot path, a failure \<open>e\<close> raised
  by the resource lookup or by the query is caught: \<^verbatim>\<open>execute_command\<close> returns (it does
  not raise) the string \<^verbatim>\<open>An error occurred while executing the command: \<close> followed by the
  failure's description \<^verbatim>\<open>str(e)\<close>.
\<close>

theorem execute_command_catches_failure:
  assumes "dict_get d ''cmd'' = Some cmd_path" and "cmd_path \<noteq> JStr reboot_path"
    and "api cmd_path = Inl e \<or>
         (\<exists>res kwargs. api cmd_path = Inr res \<and> get_params d = JObj kwargs \<and>
            resource_get res kwargs = Inl e)"
  shows "snd (execute_command api (Some d)) =
     Inr (RStr (''An error occurred while executing the command: '' @ exn_str e))"
  using assms(2,3) by (auto simp: execute_command_with_cmd[OF assms(1)] execute_error_def)

theorem execute_command_catches_failure_witness:
  "snd (execute_command failing_api (Some interface_descriptor)) =
     Inr (RStr ''An error occurred while executing the command: timed out'') \<and>
   snd (execute_command refusing_api (Some interface_descriptor)) =
     Inr (RStr ''An error occurred while executing the command: no such command prefix'')"
proof -
  have c: "dict_get interface_descriptor ''cmd'' = Some (JStr ''/interface'')"
    and n: "JStr ''/interface'' \<noteq> JStr reboot_path"
    by (simp_all add: interface_descriptor_def dict_get_def reboot_path_def)
  have f: "failing_api (JStr ''/interface'') = Inl timeout_error \<or>
         (\<exists>res kwargs. failing_api (JStr ''/interface'') = Inr res \<and>
            get_params interface_descriptor = JObj kwargs \<and> resource_get res kwargs = Inl timeout_error)"
    by (simp add: failing_api_def failing_resource_def get_params_def interface_descriptor_def dict_get_def)
  have g: "refusing_api (JStr ''/interface'') = Inl no_such_command \<or>
         (\<exists>res kwargs. refusing_api (JStr ''/interface'') = Inr res \<and>
            get_params interface_descriptor = JObj kwargs \<and> resource_get res kwargs = Inl no_such_command)"
    by (simp add: refusing_api_def)
  from execute_command_catches_failure
      [of interface_descriptor "JStr ''/interface''" failing_api timeout_error] c n f
    execute_command_catches_failure
      [of interface_descriptor "JStr ''/interface''" refusing_api no_such_command] c n g
  show ?thesis
    by (simp add: timeout_error_def no_such_command_def)
qed




section \<open>Properties of the Formatter\<close>


lemma digit_value: "d < 10 \<Longrightarrow> (of_char (digit_char d) :: nat) - 48 = d"
  by (simp add: digit_char_def)

lemma nat_of_digits_snoc:
  "nat_of_digits (ds @ [c]) = 10 * nat_of_digits ds + ((of_char c :: nat) - 48)"
  by (simp add: nat_of_digits_def)

lemma str_nat_small: "n < 10 \<Longrightarrow> str_nat n = [digit_char n]"
  by (subst str_nat.simps) simp

lemma str_nat_large: "\<not> n < 10 \<Longrightarrow> str_nat n = str_nat (n div 10) @ [digit_char (n mod 10)]"
  by (subst str_nat.simps) simp

lemma str_nat_decimal: "nat_of_digits (str_nat n) = n"
proof (induction n rule: str_nat.induct)
  case (1 n)
  show ?case
  proof (cases "n < 10")
    case True
    then show ?thesis by (simp add: str_nat_small nat_of_digits_def digit_value)
  next
    case False
    with 1 have "nat_of_digits (str_nat (n div 10)) = n div 10" by simp
    with False show ?thesis
      by (simp add: str_nat_large nat_of_digits_snoc digit_value)
  qed
qed

lemma digit_char_is_digit: "d < 10 \<Longrightarrow> is_digit (digit_char d)"
  by (simp add: is_digit_def digit_char_def)

lemma str_nat_digits: "c \<in> set (str_nat n) \<Longrightarrow> is_digit c"
proof (induction n arbitrary: c rule: str_nat.induct)
  case (1 n)
  show ?case
  proof (cases "n < 10")
    case True
    with 1(2) show ?thesis by (simp add: str_nat_small digit_char_is_digit)
  next
    case False
    with 1(2) have "c \<in> set (str_nat (n div 10)) \<or> c = digit_char (n mod 10)"
      by (auto simp: str_nat_large)
    with 1(1) False show ?thesis by (auto simp: digit_char_is_digit)
  qed
qed









text \<open>
  Claim C9. An empty result sequence formats to the fixed "no results" string under every
  descriptor (lease path, any other path, or absence), and a string input is returned
  unchanged.
\<close>

theorem format_response_empty_and_string:
  "format_response (RRecords []) command_info = no_results_message \<and>
   format_response (RStr s) command_info = s"
  by (simp add: format_response_def)

theorem format_response_empty_and_string_witness:
  "format_response (RRecords []) (Some lease_descriptor) = ''No results found or command executed successfully.'' \<and>
   format_response (RRecords []) None = ''No results found or command executed successfully.'' \<and>
   format_response (RStr reboot_message) None = reboot_message"
  using format_response_empty_and_string[of "Some lease_descriptor"]
    format_response_empty_and_string[of None reboot_message]
  by (simp add: no_results_message_def)




section \<open>Properties of the Translator\<close>

subsection \<open>The extracted span\<close>

text \<open>
  The search returns the span from the first opening brace to the last closing brace,
  and nothing exactly when no opening brace is followed by a closing one.
\<close>

lemma dropWhile_to_brace:
  assumes "c \<notin> set pre"
  shows "dropWhile (\<lambda>x. x \<noteq> c) (pre @ c # rest) = c # rest"
proof -
  from assms have "dropWhile (\<lambda>x. x \<noteq> c) pre = []" by (auto simp: dropWhile_eq_Nil_conv)
  then show ?thesis by (simp add: dropWhile_append3)
qed

lemma re_search_json_block_span:
  assumes "CHR ''{'' \<notin> set pre" and "CHR ''}'' \<notin> set post"
  shows "re_search_json_block (pre @ CHR ''{'' # mid @ CHR ''}'' # post) =
           Some (CHR ''{'' # mid @ [CHR ''}''])"
proof -
  have open_brace: "dropWhile (\<lambda>c. c \<noteq> CHR ''{'') (pre @ CHR ''{'' # mid @ CHR ''}'' # post) =
      CHR ''{'' # mid @ CHR ''}'' # post"
    using assms(1) by (rule dropWhile_to_brace)
  from assms(2) have "CHR ''}'' \<notin> set (rev post)" by simp
  then have "dropWhile (\<lambda>c. c \<noteq> CHR ''}'') (rev post @ CHR ''}'' # rev mid) = CHR ''}'' # rev mid"
    by (rule dropWhile_to_brace)
  then have close_brace: "rev (dropWhile (\<lambda>c. c \<noteq> CHR ''}'') (rev (mid @ CHR ''}'' # post))) =
      mid @ [CHR ''}'']"
    by simp
  show ?thesis
    unfolding re_search_json_block_def open_brace using close_brace by simp
qed

lemma re_search_json_block_Some:
  assumes "re_search_json_block reply = Some block"
  shows "\<exists>pre mid post. reply = pre @ CHR ''{'' # mid @ CHR ''}'' # post \<and>
           CHR ''{'' \<notin> set pre \<and> CHR ''}'' \<notin> set post \<and> block = CHR ''{'' # mid @ [CHR ''}'']"
proof -
  let ?P = "\<lambda>c. c \<noteq> CHR ''{''"
  from assms obtain brace rest where d: "dropWhile ?P reply = brace # rest"
    and r: "CHR ''}'' \<in> set rest"
    by (auto simp: re_search_json_block_def split: list.splits if_splits)
  from d have b: "brace = CHR ''{''"
    using hd_dropWhile[of "?P" reply] by auto
  have t: "reply = takeWhile ?P reply @ CHR ''{'' # rest"
    using takeWhile_dropWhile_id[of "?P" reply] d b by simp
  have p: "CHR ''{'' \<notin> set (takeWhile ?P reply)"
    using set_takeWhileD[of "CHR ''{''" "?P" reply] by auto
  from r obtain mid post where s: "rest = mid @ CHR ''}'' # post" and q: "CHR ''}'' \<notin> set post"
    using split_list_last[of "CHR ''}''" rest] by auto
  from assms re_search_json_block_span[OF p q, of mid] t s
  have "block = CHR ''{'' # mid @ [CHR ''}'']" by simp
  with t s p q show ?thesis by blast
qed

lemma re_search_json_block_None:
  "re_search_json_block reply = None \<longleftrightarrow>
     \<not> (\<exists>pre mid post. reply = pre @ CHR ''{'' # mid @ CHR ''}'' # post)"
proof
  assume n: "re_search_json_block reply = None"
  show "\<not> (\<exists>pre mid post. reply = pre @ CHR ''{'' # mid @ CHR ''}'' # post)"
  proof
    assume "\<exists>pre mid post. reply = pre @ CHR ''{'' # mid @ CHR ''}'' # post"
    then obtain pre mid post where t: "reply = pre @ CHR ''{'' # mid @ CHR ''}'' # post" by blast
    let ?P = "\<lambda>c. c \<noteq> CHR ''{''"
    have "\<exists>rest. dropWhile ?P reply = CHR ''{'' # rest \<and> CHR ''}'' \<in> set rest"
    proof (cases "CHR ''{'' \<in> set pre")
      case False
      then show ?thesis unfolding t by (simp add: dropWhile_to_brace)
    next
      case True
      then obtain a b where ab: "pre = a @ CHR ''{'' # b" and "CHR ''{'' \<notin> set a"
        using split_list_first[of "CHR ''{''" pre] by auto
      then have "dropWhile ?P reply = CHR ''{'' # (b @ CHR ''{'' # mid @ CHR ''}'' # post)"
        unfolding t using dropWhile_to_brace[of "CHR ''{''" a "b @ CHR ''{'' # mid @ CHR ''}'' # post"]
        by simp
      then show ?thesis by simp
    qed
    with n show False by (auto simp: re_search_json_block_def)
  qed
next
  assume "\<not> (\<exists>pre mid post. reply = pre @ CHR ''{'' # mid @ CHR ''}'' # post)"
  then show "re_search_json_block reply = None"
    using re_search_json_block_Some[of reply] by (cases "re_search_json_block reply") blast+
qed

subsection \<open>Outcomes\<close>

lemma snd_on_exception_bound: "snd (on_exception (Some (Inr reply)) e) = Inr None"
  by (simp add: on_exception_def)

lemma snd_on_exception_other:
  "exn_class e \<noteq> JSONDecodeError \<Longrightarrow> snd (on_exception response e) = Inr None"
  by (simp add: on_exception_def)

lemma snd_on_exception_not_Some: "snd (on_exception response e) \<noteq> Inr (Some d)"
  by (auto simp: on_exception_def split: option.splits sum.splits)

lemma check_command_Some:
  "check_command v = Inr (Some d) \<longleftrightarrow>
     v = JObj d \<and> dict_contains d ''cmd'' \<and> is_dict (dict_get d ''params'')"
  by (cases v) auto

lemma is_dict_iff: "is_dict x \<longleftrightarrow> (\<exists>ps. x = Some (JObj ps))"
  by (cases x rule: is_dict.cases) auto

lemma service_replying_answers:
  "genai_configure (service_replying reply) key = Inr (\<lambda>prompt. Inr (Inr reply))"
  "json_loads (service_replying reply) = decoder"
  by (simp_all add: service_replying_def)

text \<open>The outcome of the Translator once the service has answered with a reply text.\<close>

lemma get_ai_response_reply:
  assumes "api_key \<noteq> []" and "genai_configure env api_key = Inr model"
    and "model (full_prompt user_input) = Inr (Inr reply)"
  shows "snd (get_ai_response env user_input api_key) =
     (case re_search_json_block reply of
        None \<Rightarrow> Inr None
      | Some block \<Rightarrow>
         (case json_loads env block of
            Inl e \<Rightarrow> Inr None
          | Inr v \<Rightarrow> (case check_command v of Inl e \<Rightarrow> Inr None | Inr r \<Rightarrow> Inr r)))"
  using assms
  by (simp add: get_ai_response_def snd_on_exception_bound split: option.splits sum.splits)

lemma get_ai_response_Some:
  assumes "snd (get_ai_response env user_input api_key) = Inr (Some d)"
  shows "api_key \<noteq> [] \<and>
     (\<exists>model reply block. genai_configure env api_key = Inr model \<and>
        model (full_prompt user_input) = Inr (Inr reply) \<and>
        re_search_json_block reply = Some block \<and>
        json_loads env block = Inr (JObj d) \<and>
        dict_contains d ''cmd'' \<and> is_dict (dict_get d ''params''))"
proof -
  from assms have k: "api_key \<noteq> []"
    by (auto simp: get_ai_response_def)
  from assms k obtain model where m: "genai_configure env api_key = Inr model"
    by (cases "genai_configure env api_key") (auto simp: get_ai_response_def)
  from assms k m obtain response where t: "model (full_prompt user_input) = Inr response"
    by (cases "model (full_prompt user_input)")
      (auto simp: get_ai_response_def snd_on_exception_not_Some)
  from assms k m t obtain reply where t': "response = Inr reply"
    by (cases response) (auto simp: get_ai_response_def snd_on_exception_not_Some)
  note r = get_ai_response_reply[OF k m t[unfolded t']]
  from assms r obtain block where b: "re_search_json_block reply = Some block"
    by (cases "re_search_json_block reply") auto
  from assms r b obtain v where v: "json_loads env block = Inr v"
    by (cases "json_loads env block") auto
  from assms r b v have "check_command v = Inr (Some d)"
    by (cases "check_command v") auto
  then have "v = JObj d \<and> dict_contains d ''cmd'' \<and> is_dict (dict_get d ''params'')"
    by (simp add: check_command_Some)
  with k m t t' b v show ?thesis by blast
qed

text \<open>
  Claim C2, as stated, says that of several JSON-object-shaped substrings the first is
  extracted and parsed. In a reply with two objects the first one is a descriptor the
  decoder accepts, but the span handed to the decoder runs from the first opening brace
  to the last closing brace and covers both objects: decoding fails and the Translator
  returns \<^verbatim>\<open>None\<close>.
\<close>

theorem get_ai_response_two_objects:
  \<open>two_object_reply = ''{"cmd": "/interface", "params": {}}'' @ '' or {"cmd": "/log", "params": {}}'' \<and>
   decoder ''{"cmd": "/interface", "params": {}}'' =
     Inr (JObj [(''cmd'', JStr ''/interface''), (''params'', JObj [])]) \<and>
   get_ai_response (service_replying two_object_reply) ''show interfaces'' ''key'' =
     ([msg_parse_failed], Inr None)\<close>
proof -
  have 1: \<open>two_object_reply = ''{"cmd": "/interface", "params": {}}'' @ '' or {"cmd": "/log", "params": {}}''\<close>
    by (simp add: two_object_reply_def)
  have 2: \<open>decoder ''{"cmd": "/interface", "params": {}}'' =
     Inr (JObj [(''cmd'', JStr ''/interface''), (''params'', JObj [])])\<close>
    by code_simp
  have 3: "re_search_json_block two_object_reply = Some two_object_reply"
    by code_simp
  have 4: "decoder two_object_reply = Inl (PyExn JSONDecodeError [])"
    by code_simp
  have 5: "get_ai_response (service_replying two_object_reply) ''show interfaces'' ''key'' =
     ([msg_parse_failed], Inr None)"
    by (simp add: get_ai_response_def service_replying_answers 3 4 on_exception_def)
  show ?thesis by (rule conjI[OF 1 conjI[OF 2 5]])
qed

text \<open>
  Claim C2, amended. When the service answers with a reply text, the Translator extracts
  the one span from the first opening brace to the last closing brace of the reply (the
  leftmost match, taken greedily) and hands that span, and nothing else, to the decoder:
  the result is the decoded dictionary when the decoder returns one that has the key
  \<^verbatim>\<open>cmd\<close> and a mapping under \<^verbatim>\<open>params\<close>, and \<^verbatim>\<open>None\<close> in every other case. In
  particular, for the reply \<^verbatim>\<open>Sure! {"cmd": "/system/resource", "params": {}} Hope that
  helps!\<close> it returns the descriptor \<^verbatim>\<open>{"cmd": "/system/resource", "params": {}}\<close>, for
  every request and every non-empty key.
\<close>

theorem get_ai_response_greedy_span:
  "(api_key \<noteq> [] \<and> genai_configure env api_key = Inr model \<and>
    model (full_prompt user_input) = Inr (Inr (pre @ CHR ''{'' # mid @ CHR ''}'' # post)) \<and>
    CHR ''{'' \<notin> set pre \<and> CHR ''}'' \<notin> set post \<longrightarrow>
    snd (get_ai_response env user_input api_key) =
      (case json_loads env (CHR ''{'' # mid @ [CHR ''}'']) of
         Inr (JObj d) \<Rightarrow>
           if dict_contains d ''cmd'' \<and> is_dict (dict_get d ''params'')
           then Inr (Some d) else Inr None
       | _ \<Rightarrow> Inr None)) \<and>
   (key \<noteq> [] \<longrightarrow>
    get_ai_response (service_replying helpful_reply) request key =
      ([], Inr (Some [(''cmd'', JStr ''/system/resource''), (''params'', JObj [])])))"
proof (intro conjI impI)
  assume a: "api_key \<noteq> [] \<and> genai_configure env api_key = Inr model \<and>
    model (full_prompt user_input) = Inr (Inr (pre @ CHR ''{'' # mid @ CHR ''}'' # post)) \<and>
    CHR ''{'' \<notin> set pre \<and> CHR ''}'' \<notin> set post"
  then have s: "re_search_json_block (pre @ CHR ''{'' # mid @ CHR ''}'' # post) =
      Some (CHR ''{'' # mid @ [CHR ''}''])"
    by (simp add: re_search_json_block_span)
  have c: "(case check_command v of Inl e \<Rightarrow> Inr None | Inr r \<Rightarrow> Inr r) =
      (case v of JObj d \<Rightarrow>
           if dict_contains d ''cmd'' \<and> is_dict (dict_get d ''params'')
           then Inr (Some d) else Inr None
       | _ \<Rightarrow> Inr None)" for v
    by (cases v) (simp_all add: not_iterable_def)
  from a have "snd (get_ai_response env user_input api_key) =
     (case json_loads env (CHR ''{'' # mid @ [CHR ''}'']) of
        Inl e \<Rightarrow> Inr None
      | Inr v \<Rightarrow> (case check_command v of Inl e \<Rightarrow> Inr None | Inr r \<Rightarrow> Inr r))"
    using get_ai_response_reply[of api_key env model user_input] s by simp
  then show "snd (get_ai_response env user_input api_key) =
      (case json_loads env (CHR ''{'' # mid @ [CHR ''}'']) of
         Inr (JObj d) \<Rightarrow>
           if dict_contains d ''cmd'' \<and> is_dict (dict_get d ''params'')
           then Inr (Some d) else Inr None
       | _ \<Rightarrow> Inr None)"
    by (simp add: c split: sum.splits)
next
  assume k: "key \<noteq> []"
  have 1: \<open>re_search_json_block helpful_reply = Some ''{"cmd": "/system/resource", "params": {}}''\<close>
    by code_simp
  have 2: \<open>decoder ''{"cmd": "/system/resource", "params": {}}'' =
      Inr (JObj [(''cmd'', JStr ''/system/resource''), (''params'', JObj [])])\<close>
    by code_simp
  from k show "get_ai_response (service_replying helpful_reply) request key =
      ([], Inr (Some [(''cmd'', JStr ''/system/resource''), (''params'', JObj [])]))"
    by (simp add: get_ai_response_def service_replying_answers 1 2 dict_contains_def dict_get_def)
qed

theorem get_ai_response_greedy_span_witness:
  \<open>snd (get_ai_response (service_replying helpful_reply) ''what is the router uptime?'' ''key'') =
     Inr (Some [(''cmd'', JStr ''/system/resource''), (''params'', JObj [])])\<close>
proof -
  have h: \<open>''key'' \<noteq> [] \<and>
    genai_configure (service_replying helpful_reply) ''key'' = Inr (\<lambda>prompt. Inr (Inr helpful_reply)) \<and>
    (\<lambda>prompt. Inr (Inr helpful_reply)) (full_prompt ''what is the router uptime?'') =
      Inr (Inr (''Sure! '' @ CHR ''{'' # ''"cmd": "/system/resource", "params": {}'' @ CHR ''}'' # '' Hope that helps!'')) \<and>
    CHR ''{'' \<notin> set ''Sure! '' \<and> CHR ''}'' \<notin> set '' Hope that helps!''\<close>
    by (simp add: service_replying_answers helpful_reply_def)
  have d: \<open>json_loads (service_replying helpful_reply)
       (CHR ''{'' # ''"cmd": "/system/resource", "params": {}'' @ [CHR ''}'']) =
      Inr (JObj [(''cmd'', JStr ''/system/resource''), (''params'', JObj [])])\<close>
    unfolding service_replying_answers by code_simp
  have c: "dict_contains [(''cmd'', JStr ''/system/resource''), (''params'', JObj [])] ''cmd'' \<and>
      is_dict (dict_get [(''cmd'', JStr ''/system/resource''), (''params'', JObj [])] ''params'')"
    by (simp add: dict_contains_def dict_get_def)
  note g = get_ai_response_greedy_span[of "''key''" "service_replying helpful_reply"
      "\<lambda>prompt. Inr (Inr helpful_reply)" "''what is the router uptime?''" "''Sure! ''"
      \<open>''"cmd": "/system/resource", "params": {}''\<close> "'' Hope that helps!''",
      THEN conjunct1, THEN mp, OF h]
  show ?thesis unfolding g d using c by simp
qed

text \<open>
  Claim C4, as stated, says the \<^verbatim>\<open>cmd\<close> of a returned descriptor is a non-empty string.
  The code tests only that the key is present: the reply \<^verbatim>\<open>{"cmd": "", "params": {}}\<close> is
  returned as a descriptor whose path is the empty string.
\<close>

theorem get_ai_response_empty_cmd:
  "get_ai_response (service_replying empty_cmd_reply) ''do something'' ''key'' =
     ([], Inr (Some [(''cmd'', JStr []), (''params'', JObj [])]))"
proof -
  have 1: "re_search_json_block empty_cmd_reply = Some empty_cmd_reply"
    by code_simp
  have 2: "decoder empty_cmd_reply = Inr (JObj [(''cmd'', JStr []), (''params'', JObj [])])"
    by code_simp
  show ?thesis
    by (simp add: get_ai_response_def service_replying_answers 1 2 dict_contains_def dict_get_def)
qed

text \<open>
  Claim C4, amended. For every service and decoder, if \<^verbatim>\<open>get_ai_response\<close> returns a
  descriptor, the descriptor has the key \<^verbatim>\<open>cmd\<close> (with any JSON value) and its \<^verbatim>\<open>params\<close>
  is a mapping.
\<close>

theorem get_ai_response_descriptor_shape:
  assumes "snd (get_ai_response env user_input api_key) = Inr (Some d)"
  shows "dict_contains d ''cmd'' \<and> (\<exists>params. dict_get d ''params'' = Some (JObj params))"
  using get_ai_response_Some[OF assms] by (auto simp: is_dict_iff)

theorem get_ai_response_descriptor_shape_witness:
  "snd (get_ai_response (service_replying empty_cmd_reply) ''do something'' ''key'') =
     Inr (Some [(''cmd'', JStr []), (''params'', JObj [])]) \<and>
   dict_contains [(''cmd'', JStr []), (''params'', JObj [])] ''cmd'' \<and>
   (\<exists>params. dict_get [(''cmd'', JStr []), (''params'', JObj [])] ''params'' = Some (JObj params))"
proof -
  have 1: "re_search_json_block empty_cmd_reply = Some empty_cmd_reply"
    by code_simp
  have 2: "decoder empty_cmd_reply = Inr (JObj [(''cmd'', JStr []), (''params'', JObj [])])"
    by code_simp
  have h: "snd (get_ai_response (service_replying empty_cmd_reply) ''do something'' ''key'') =
     Inr (Some [(''cmd'', JStr []), (''params'', JObj [])])"
    by (simp add: get_ai_response_def service_replying_answers 1 2 dict_contains_def dict_get_def)
  from get_ai_response_descriptor_shape[OF h] h show ?thesis by simp
qed

text \<open>
  Claim C5 says every error path, a failure of the service among them, returns
  \<^verbatim>\<open>None\<close>. When \<^verbatim>\<open>generate_content\<close> raises a \<^verbatim>\<open>json.JSONDecodeError\<close>, the first handler
  takes it, shows the parse message and then evaluates \<^verbatim>\<open>response.text\<close> for its
  \<^verbatim>\<open>print\<close> while \<^verbatim>\<open>response\<close> is still unbound: an \<^verbatim>\<open>UnboundLocalError\<close> leaves the
  function instead of the return value \<^verbatim>\<open>None\<close>.
\<close>

theorem get_ai_response_service_decode_error:
  "get_ai_response garbled_service ''show the log'' ''key'' =
     ([msg_parse_failed], Inl unbound_response)"
  by (simp add: get_ai_response_def garbled_service_def on_exception_def)

text \<open>
  All other error paths return \<^verbatim>\<open>None\<close>: a missing key, a failing configuration, a
  service call or a \<^verbatim>\<open>text\<close> whose exception is no \<^verbatim>\<open>JSONDecodeError\<close>, a reply without a
  brace-delimited span, a span the decoder rejects, and a decoded value that fails the
  key test.
\<close>

lemma get_ai_response_error_paths:
  assumes "api_key = [] \<or>
     (\<exists>e. genai_configure env api_key = Inl e) \<or>
     (\<exists>model e. genai_configure env api_key = Inr model \<and>
        (model (full_prompt user_input) = Inl e \<or> model (full_prompt user_input) = Inr (Inl e)) \<and>
        exn_class e \<noteq> JSONDecodeError) \<or>
     (\<exists>model reply. genai_configure env api_key = Inr model \<and>
        model (full_prompt user_input) = Inr (Inr reply) \<and>
        \<not> (\<exists>pre mid post. reply = pre @ CHR ''{'' # mid @ CHR ''}'' # post)) \<or>
     (\<exists>model reply block e. genai_configure env api_key = Inr model \<and>
        model (full_prompt user_input) = Inr (Inr reply) \<and>
        re_search_json_block reply = Some block \<and> json_loads env block = Inl e) \<or>
     (\<exists>model reply block v. genai_configure env api_key = Inr model \<and>
        model (full_prompt user_input) = Inr (Inr reply) \<and>
        re_search_json_block reply = Some block \<and> json_loads env block = Inr v \<and>
        \<not> (\<exists>d. v = JObj d \<and> dict_contains d ''cmd'' \<and> is_dict (dict_get d ''params'')))"
  shows "snd (get_ai_response env user_input api_key) = Inr None"
proof (cases "api_key = []")
  case True
  then show ?thesis by (simp add: get_ai_response_def)
next
  case k: False
  show ?thesis
  proof (cases "genai_configure env api_key")
    case (Inl e)
    with k show ?thesis by (simp add: get_ai_response_def)
  next
    case m: (Inr model)
    show ?thesis
    proof (cases "model (full_prompt user_input)")
      case (Inl e)
      with assms k m have "exn_class e \<noteq> JSONDecodeError" by auto
      with k m Inl show ?thesis by (simp add: get_ai_response_def snd_on_exception_other)
    next
      case r: (Inr response)
      show ?thesis
      proof (cases response)
        case (Inl e)
        with assms k m r have "exn_class e \<noteq> JSONDecodeError" by auto
        with k m r Inl show ?thesis by (simp add: get_ai_response_def snd_on_exception_other)
      next
        case (Inr reply)
        note g = get_ai_response_reply[OF k m r[unfolded Inr]]
        show ?thesis
        proof (cases "re_search_json_block reply")
          case None
          with g show ?thesis by simp
        next
          case b: (Some block)
          then have dec: "\<exists>pre mid post. reply = pre @ CHR ''{'' # mid @ CHR ''}'' # post"
            using re_search_json_block_None[of reply] by simp
          have "(\<exists>e. json_loads env block = Inl e) \<or>
             (\<exists>v. json_loads env block = Inr v \<and>
                \<not> (\<exists>d. v = JObj d \<and> dict_contains d ''cmd'' \<and> is_dict (dict_get d ''params'')))"
            using assms
          proof (elim disjE exE conjE)
            assume "api_key = []"
            with k show ?thesis by simp
          next
            fix e assume "genai_configure env api_key = Inl e"
            with m show ?thesis by simp
          next
            fix model' e
            assume "genai_configure env api_key = Inr model'"
              and "model' (full_prompt user_input) = Inl e"
            with m r show ?thesis by simp
          next
            fix model' e
            assume "genai_configure env api_key = Inr model'"
              and "model' (full_prompt user_input) = Inr (Inl e)"
            with m r Inr show ?thesis by simp
          next
            fix model' reply'
            assume "genai_configure env api_key = Inr model'"
              and "model' (full_prompt user_input) = Inr (Inr reply')"
              and "\<not> (\<exists>pre mid post. reply' = pre @ CHR ''{'' # mid @ CHR ''}'' # post)"
            with m r Inr dec show ?thesis by simp
          next
            fix model' reply' block' e
            assume "genai_configure env api_key = Inr model'"
              and "model' (full_prompt user_input) = Inr (Inr reply')"
              and "re_search_json_block reply' = Some block'"
              and "json_loads env block' = Inl e"
            with m r Inr b show ?thesis by simp
          next
            fix model' reply' block' v
            assume "genai_configure env api_key = Inr model'"
              and "model' (full_prompt user_input) = Inr (Inr reply')"
              and "re_search_json_block reply' = Some block'"
              and "json_loads env block' = Inr v"
              and "\<not> (\<exists>d. v = JObj d \<and> dict_contains d ''cmd'' \<and> is_dict (dict_get d ''params''))"
            with m r Inr b show ?thesis by simp
          qed
          then show ?thesis
          proof
            assume "\<exists>e. json_loads env block = Inl e"
            with g b show ?thesis by auto
          next
            assume "\<exists>v. json_loads env block = Inr v \<and>
                \<not> (\<exists>d. v = JObj d \<and> dict_contains d ''cmd'' \<and> is_dict (dict_get d ''params''))"
            then obtain v where v: "json_loads env block = Inr v"
              and n: "\<not> (\<exists>d. v = JObj d \<and> dict_contains d ''cmd'' \<and> is_dict (dict_get d ''params''))"
              by blast
            from n have "check_command v \<noteq> Inr (Some d)" for d
              by (simp add: check_command_Some)
            then have "(case check_command v of Inl e \<Rightarrow> Inr None | Inr r \<Rightarrow> Inr r) = Inr None"
              by (cases "check_command v") (auto split: option.splits)
            with g b v show ?thesis by simp
          qed
        qed
      qed
    qed
  qed
qed

lemma get_ai_response_error_examples:
  "snd (get_ai_response (service_replying helpful_reply) ''show the log'' []) = Inr None \<and>
   snd (get_ai_response rejecting_service ''show the log'' ''key'') = Inr None \<and>
   snd (get_ai_response unavailable_service ''show the log'' ''key'') = Inr None \<and>
   snd (get_ai_response (service_replying prose_reply) ''show the log'' ''key'') = Inr None \<and>
   snd (get_ai_response (service_replying malformed_reply) ''show the log'' ''key'') = Inr None \<and>
   snd (get_ai_response (service_replying missing_params_reply) ''show the log'' ''key'') = Inr None \<and>
   snd (get_ai_response (service_replying list_params_reply) ''show the log'' ''key'') = Inr None"
proof -
  have 1: "snd (get_ai_response (service_replying helpful_reply) ''show the log'' []) = Inr None"
    by (rule get_ai_response_error_paths) simp
  have 2: "snd (get_ai_response rejecting_service ''show the log'' ''key'') = Inr None"
    by (rule get_ai_response_error_paths) (simp add: rejecting_service_def)
  have 3: "snd (get_ai_response unavailable_service ''show the log'' ''key'') = Inr None"
    by (rule get_ai_response_error_paths) (simp add: unavailable_service_def)
  have "re_search_json_block prose_reply = None" by code_simp
  then have "\<not> (\<exists>pre mid post. prose_reply = pre @ CHR ''{'' # mid @ CHR ''}'' # post)"
    by (simp add: re_search_json_block_None)
  then have 4: "snd (get_ai_response (service_replying prose_reply) ''show the log'' ''key'') = Inr None"
    by (intro get_ai_response_error_paths) (simp add: service_replying_answers)
  have "re_search_json_block malformed_reply = Some malformed_reply"
    and "decoder malformed_reply = Inl (PyExn JSONDecodeError [])"
    by code_simp+
  then have 5: "snd (get_ai_response (service_replying malformed_reply) ''show the log'' ''key'') = Inr None"
    by (intro get_ai_response_error_paths) (simp add: service_replying_answers)
  have "re_search_json_block missing_params_reply = Some missing_params_reply"
    and "decoder missing_params_reply = Inr (JObj [(''cmd'', JStr ''/log'')])"
    and "\<not> is_dict (dict_get [(''cmd'', JStr ''/log'')] ''params'')"
    by code_simp+
  then have 6: "snd (get_ai_response (service_replying missing_params_reply) ''show the log'' ''key'') = Inr None"
    by (intro get_ai_response_error_paths) (simp add: service_replying_answers)
  have "re_search_json_block list_params_reply = Some list_params_reply"
    and "decoder list_params_reply = Inr (JObj [(''cmd'', JStr ''/log''), (''params'', JArr [])])"
    and "\<not> is_dict (dict_get [(''cmd'', JStr ''/log''), (''params'', JArr [])] ''params'')"
    by code_simp+
  then have 7: "snd (get_ai_response (service_replying list_params_reply) ''show the log'' ''key'') = Inr None"
    by (intro get_ai_response_error_paths) (simp add: service_replying_answers)
  from 1 2 3 4 5 6 7 show ?thesis by simp
qed

end
